theory Spec2Isabelle
  imports Complex_Main "HOL-Library.Multiset"
begin

section \<open>Data model of the dashboard (src/src/Dashboard.jsx)\<close>

text \<open>
  One telemetry sample of the payload's \<open>recentReadings\<close> array.

  \<^item> \<open>timestamp\<close> holds the time value of \<^verbatim>\<open>new Date(item.timestamp)\<close>: milliseconds
    since the epoch, for the ISO-8601 string the payload carries. Unparseable strings
    (Invalid Date) are outside this type.
  \<^item> \<open>consumption_kwh\<close> is a JavaScript number. JSON carries no NaN and no infinity;
    the model computes with exact reals, so rounding of IEEE doubles is not represented.
\<close>

record reading =
  device_id :: string
  location :: string
  timestamp :: int
  consumption_kwh :: real
  status :: string
  anomaly_detected :: bool

text \<open>
  The clock and the host's time zone, which the source reads through \<^verbatim>\<open>Date.now()\<close>
  and the local-time getters of \<^verbatim>\<open>Date\<close>. \<open>now\<close> is \<^verbatim>\<open>Date.now()\<close>. The zone
  is its table of offsets: \<open>tzOffset\<close> is the value of \<^verbatim>\<open>getTimezoneOffset()\<close> (the
  minutes to add to local time to reach UTC) before the first change, and \<open>tzChanges\<close>
  lists, in ascending order, the instants at which the offset changes, each with the offset
  from then on. Every instant the functions meet is taken to be a valid \<^verbatim>\<open>Date\<close> time
  value, at most 8.64 * 10^15 milliseconds from the epoch.
\<close>

record env =
  now :: int
  tzOffset :: int
  tzChanges :: "(int \<times> int) list"

text \<open>What both aggregation helpers return: \<^verbatim>\<open>{ labels, values }\<close>.\<close>

record ('k, 'v) chartData =
  labels :: "'k list"
  chartValues :: "'v list"

section \<open>Local time\<close>

text \<open>The offset in force at the instant \<open>t\<close>, read off the table.\<close>

fun offsetAt :: "int \<Rightarrow> (int \<times> int) list \<Rightarrow> int \<Rightarrow> int" where
  "offsetAt off [] t = off"
| "offsetAt off ((change, off') # later) t =
     (if t < change then off else offsetAt off' later t)"

definition getTimezoneOffset :: "env \<Rightarrow> int \<Rightarrow> int" where
  "getTimezoneOffset e t = offsetAt (tzOffset e) (tzChanges e) t"

text \<open>ECMAScript's \<open>LocalTime(t)\<close>: the wall-clock reading of the instant \<open>t\<close>, as a
  time value.\<close>

definition LocalTime :: "env \<Rightarrow> int \<Rightarrow> int" where
  "LocalTime e t = t - getTimezoneOffset e t * 60000"

text \<open>
  The instants at which the wall clock reads \<open>tlocal\<close>, in ascending order. Such an
  instant is \<open>tlocal\<close> plus one of the offsets of the table, so those are the candidates.
  There are two or more of them in the time repeated after the clocks go back, and none in
  the time skipped when they go forward.
\<close>

definition possibleInstants :: "env \<Rightarrow> int \<Rightarrow> int list" where
  "possibleInstants e tlocal =
     filter (\<lambda>u. LocalTime e u = tlocal)
       (sort (remdups (map (\<lambda>off. tlocal + off * 60000) (tzOffset e # map snd (tzChanges e)))))"

text \<open>
  ECMAScript's \<open>UTC(t)\<close>, which the \<^verbatim>\<open>Date\<close> constructor applies to local fields: the
  first of the possible instants. For a skipped wall-clock time it takes the offset in
  force at the last instant of the latest wall-clock time before it (the offset before the
  transition); the two innermost empty cases cannot arise for a skipped time and return the
  reading under the initial offset.
\<close>

definition UTC :: "env \<Rightarrow> int \<Rightarrow> int" where
  "UTC e tlocal =
     (case possibleInstants e tlocal of
        first # _ \<Rightarrow> first
      | [] \<Rightarrow>
          (case rev (sort (filter (\<lambda>l. l < tlocal)
                  (map (\<lambda>(change, _). LocalTime e (change - 1)) (tzChanges e)))) of
             [] \<Rightarrow> tlocal + tzOffset e * 60000
           | tBefore # _ \<Rightarrow>
               (case rev (possibleInstants e tBefore) of
                  [] \<Rightarrow> tlocal + tzOffset e * 60000
                | lastInstant # _ \<Rightarrow> tlocal + getTimezoneOffset e lastInstant * 60000)))"



section \<open>Aggregation helpers\<close>

text \<open>\<^verbatim>\<open>new Date(Date.now() - hours * 60 * 60 * 1000)\<close>, with \<open>hours\<close> a whole number
  (the time-frame buttons pass 1, 3, 6, 12 and 24; the default is 1).\<close>

definition startTime :: "env \<Rightarrow> int \<Rightarrow> int" where
  "startTime e hours = now e - hours * 60 * 60 * 1000"

text \<open>
  \<^verbatim>\<open>new Date(y, m, d, h, min).toISOString()\<close> over the local-time fields of \<open>itemTime\<close>:
  the getters read the wall clock at the instant, the constructor drops its seconds and
  milliseconds and reads the wall-clock minute back as an instant. The label is the
  ISO-8601 text of that instant; the text is fixed-width for years 0000 to 9999, so it
  determines the instant and its lexicographic order, which \<^verbatim>\<open>sort()\<close> uses, is the
  chronological one. The model keeps the instant itself. (The \<^verbatim>\<open>Date\<close> constructor
  reads a year below 100 as 1900 plus that year; instants of those years are outside the
  model.)
\<close>

definition minuteKey :: "env \<Rightarrow> int \<Rightarrow> int" where
  "minuteKey e itemTime =
     (let localTime = LocalTime e itemTime;
          wallMinute = localTime - localTime mod 60000
      in UTC e wallMinute)"

text \<open>\<^verbatim>\<open>x || 0\<close> on a number or \<^verbatim>\<open>undefined\<close>: \<open>undefined\<close> and \<open>0\<close> are falsy.\<close>

fun orZero :: "real option \<Rightarrow> real" where
  "orZero None = 0"
| "orZero (Some v) = (if v = 0 then 0 else v)"

text \<open>
  A plain object used as a dictionary, as the list of its own properties in insertion
  order. \<^verbatim>\<open>obj[k] = (obj[k] || 0) + v\<close> overwrites an existing property in place and
  appends a new one. This is the dictionary of the time buckets: its keys are ISO-8601
  texts, which name no member of \<^verbatim>\<open>Object.prototype\<close>, so a key that is not an own
  property reads as \<^verbatim>\<open>undefined\<close>.
\<close>

fun addTo :: "'k \<Rightarrow> real \<Rightarrow> ('k \<times> real) list \<Rightarrow> ('k \<times> real) list" where
  "addTo k v [] = [(k, orZero None + v)]"
| "addTo k v ((k', w) # kvs) =
     (if k = k' then (k', orZero (Some w) + v) # kvs else (k', w) # addTo k v kvs)"

text \<open>The \<^verbatim>\<open>readings.forEach\<close> loop of the time buckets: only items strictly later
  than the start time are added.\<close>

fun forEachNewer ::
  "(reading \<Rightarrow> 'k) \<Rightarrow> int \<Rightarrow> reading list \<Rightarrow> ('k \<times> real) list \<Rightarrow> ('k \<times> real) list" where
  "forEachNewer keyOf start [] acc = acc"
| "forEachNewer keyOf start (item # rest) acc =
     forEachNewer keyOf start rest
       (if timestamp item > start then addTo (keyOf item) (consumption_kwh item) acc else acc)"

text \<open>\<^verbatim>\<open>obj[key]\<close> for a key taken from \<^verbatim>\<open>Object.keys(obj)\<close>.\<close>

definition valueAt :: "('k \<times> 'v) list \<Rightarrow> 'k \<Rightarrow> 'v" where
  "valueAt kvs k = the (map_of kvs k)"

definition aggregateConsumptionByTime ::
  "env \<Rightarrow> reading list \<Rightarrow> int \<Rightarrow> (int, real) chartData" where
  "aggregateConsumptionByTime e readings hours =
     (let consumptionByMinute =
            forEachNewer (\<lambda>item. minuteKey e (timestamp item)) (startTime e hours) readings [];
          ls = sort (map fst consumptionByMinute);
          vs = map (valueAt consumptionByMinute) ls
      in \<lparr>labels = ls, chartValues = vs\<rparr>)"

text \<open>
  \<^verbatim>\<open>Object.keys\<close> lists array-index keys first, in ascending numeric order, and the
  other string keys after them in insertion order. An array index is the canonical decimal
  text of an integer from 0 to 2^32 - 2.
\<close>

definition isDigit :: "char \<Rightarrow> bool" where
  "isDigit c = (48 \<le> (of_char c :: nat) \<and> (of_char c :: nat) \<le> 57)"

definition indexValue :: "string \<Rightarrow> nat" where
  "indexValue s = foldl (\<lambda>n c. 10 * n + (of_char c - 48)) 0 s"

definition isArrayIndex :: "string \<Rightarrow> bool" where
  "isArrayIndex s =
     (s \<noteq> [] \<and> list_all isDigit s \<and> (s = ''0'' \<or> hd s \<noteq> CHR ''0'') \<and> indexValue s < 2 ^ 32 - 1)"

definition objectKeys :: "(string \<times> 'v) list \<Rightarrow> string list" where
  "objectKeys obj =
     sort_key indexValue (filter isArrayIndex (map fst obj))
       @ filter (\<lambda>k. \<not> isArrayIndex k) (map fst obj)"

section \<open>The device dictionary and the members of Object.prototype\<close>

text \<open>
  The device dictionary is keyed by \<open>device_id\<close>, any string, and is a plain \<^verbatim>\<open>{}\<close>:
  a key that is not an own property is looked up in \<^verbatim>\<open>Object.prototype\<close>. What a
  property of this dictionary holds is a number or a text that is no number.
\<close>

datatype cell = Num real | Text

text \<open>The function members of \<^verbatim>\<open>Object.prototype\<close>; its one other member is the
  accessor \<^verbatim>\<open>__proto__\<close>.\<close>

definition inheritedFunctions :: "string list" where
  "inheritedFunctions =
     [''constructor'', ''hasOwnProperty'', ''isPrototypeOf'', ''propertyIsEnumerable'',
      ''toLocaleString'', ''toString'', ''valueOf'', ''__defineGetter__'', ''__defineSetter__'',
      ''__lookupGetter__'', ''__lookupSetter__'']"

text \<open>
  \<^verbatim>\<open>obj[k] = (obj[k] || 0) + v\<close> on the device dictionary.
  \<^item> An own number is replaced by the sum. An own text is truthy, and text plus number
    is text.
  \<^item> \<^verbatim>\<open>__proto__\<close> reads as the prototype object, which is truthy; the sum is a text,
    and assigning a text to \<^verbatim>\<open>__proto__\<close> does nothing: no property is created.
  \<^item> Another inherited name reads as a function, which is truthy; the sum is the text of
    the function followed by the number, stored as a new own property.
  \<^item> Any other new key reads as \<^verbatim>\<open>undefined\<close> and is stored as \<open>0 + v\<close>.
\<close>

fun addToObject :: "string \<Rightarrow> real \<Rightarrow> (string \<times> cell) list \<Rightarrow> (string \<times> cell) list" where
  "addToObject k v [] =
     (if k = ''__proto__'' then []
      else if k \<in> set inheritedFunctions then [(k, Text)]
      else [(k, Num (orZero None + v))])"
| "addToObject k v ((k', c) # kvs) =
     (if k = k' then
        (k', (case c of Num w \<Rightarrow> Num (orZero (Some w) + v) | Text \<Rightarrow> Text)) # kvs
      else (k', c) # addToObject k v kvs)"

text \<open>The \<^verbatim>\<open>readings.forEach\<close> loop of the device ranking.\<close>

fun forEachNewerDevice ::
  "int \<Rightarrow> reading list \<Rightarrow> (string \<times> cell) list \<Rightarrow> (string \<times> cell) list" where
  "forEachNewerDevice start [] acc = acc"
| "forEachNewerDevice start (item # rest) acc =
     forEachNewerDevice start rest
       (if timestamp item > start then addToObject (device_id item) (consumption_kwh item) acc
        else acc)"

text \<open>\<open>ToNumber\<close> of a property value; \<open>None\<close> is NaN.\<close>

fun toNumber :: "cell \<Rightarrow> real option" where
  "toNumber (Num w) = Some w"
| "toNumber Text = None"

text \<open>
  What a call returns when ECMAScript leaves part of the result to the engine.
  \<^verbatim>\<open>keys.sort((a, b) => obj[b] - obj[a])\<close> is a stable sort (ECMAScript 2019) by
  descending value when every value is a number; \<open>sort_key\<close> is the stable insertion sort,
  on the negated value. When a value is a text the comparator yields NaN, it is not a
  consistent comparator, and the order of the keys is implementation-defined; a list of at
  most one key has one order only.
\<close>

datatype 'a outcome = Returns 'a | EngineDefined

text \<open>The lines after the loop: the keys sorted by value, the first five, their values.\<close>

definition rankDevices :: "(string \<times> cell) list \<Rightarrow> (string, cell) chartData outcome" where
  "rankDevices consumptionByDevice =
     (let keys = objectKeys consumptionByDevice
      in if list_all (\<lambda>k. toNumber (valueAt consumptionByDevice k) \<noteq> None) keys then
           (let sortedDevices =
                  sort_key (\<lambda>k. - the (toNumber (valueAt consumptionByDevice k))) keys;
                ls = take 5 sortedDevices;
                vs = map (valueAt consumptionByDevice) ls
            in Returns \<lparr>labels = ls, chartValues = vs\<rparr>)
         else if length keys \<le> 1 then
           Returns \<lparr>labels = take 5 keys,
                    chartValues = map (valueAt consumptionByDevice) (take 5 keys)\<rparr>
         else EngineDefined)"

definition aggregateConsumptionByDevice ::
  "env \<Rightarrow> reading list \<Rightarrow> int \<Rightarrow> (string, cell) chartData outcome" where
  "aggregateConsumptionByDevice e readings hours =
     rankDevices (forEachNewerDevice (startTime e hours) readings [])"

section \<open>Suggestion rule\<close>

definition generateSmartSuggestion :: "real \<Rightarrow> string" where
  "generateSmartSuggestion consumption =
     (if consumption > 5 then
        ''Consider turning off unused appliances or using energy-saving mode.''
      else if consumption \<ge> 2 \<and> consumption \<le> 5 then
        ''Moderate usage. Try using appliances during off-peak hours to save energy.''
      else
        ''Great! Your energy usage is low. Keep it up!'')"

text \<open>The three advisory texts of the source, under the category names of the
  specification's \<open>classify\<close>.\<close>

datatype usage = HighUsage | ModerateUsage | LowUsage

fun advisory :: "usage \<Rightarrow> string" where
  "advisory HighUsage = ''Consider turning off unused appliances or using energy-saving mode.''"
| "advisory ModerateUsage =
     ''Moderate usage. Try using appliances during off-peak hours to save energy.''"
| "advisory LowUsage = ''Great! Your energy usage is low. Keep it up!''"

section \<open>View state and the filtered reading list\<close>

text \<open>
  The three \<^verbatim>\<open>useState\<close> cells of the component. \<open>cardView\<close> is \<^verbatim>\<open>'date'\<close>,
  \<^verbatim>\<open>'consumption'\<close> or \<^verbatim>\<open>'anomalies'\<close>; \<open>consumptionFilter\<close> is \<^verbatim>\<open>null\<close>
  (\<open>None\<close>) or \<^verbatim>\<open>'high'\<close>, \<^verbatim>\<open>'medium'\<close>, \<^verbatim>\<open>'low'\<close>; \<open>timeFrame\<close> is the
  window in hours.
\<close>

record viewState =
  cardView :: string
  consumptionFilter :: "string option"
  timeFrame :: int

definition initialState :: viewState where
  "initialState = \<lparr>cardView = ''date'', consumptionFilter = None, timeFrame = 1\<rparr>"

text \<open>
  \<^verbatim>\<open>getFilteredReadings\<close> on values. \<^verbatim>\<open>arr.sort(cmp)\<close> with the comparators
  \<^verbatim>\<open>b.consumption_kwh - a.consumption_kwh\<close> and
  \<^verbatim>\<open>new Date(b.timestamp) - new Date(a.timestamp)\<close> is the stable sort by the negated
  field. \<^verbatim>\<open>if (consumptionFilter)\<close> is false for \<^verbatim>\<open>null\<close> and for the empty string;
  a string other than the three tier names passes every test and filters nothing.
\<close>

definition getFilteredReadings :: "viewState \<Rightarrow> reading list \<Rightarrow> reading list" where
  "getFilteredReadings st recentReadings =
     (let filtered =
            (if cardView st = ''anomalies'' then filter anomaly_detected recentReadings
             else if cardView st = ''consumption'' then
               sort_key (\<lambda>item. - consumption_kwh item) recentReadings
             else sort_key (\<lambda>item. - timestamp item) recentReadings)
      in case consumptionFilter st of
           None \<Rightarrow> filtered
         | Some tier \<Rightarrow>
             if tier = [] then filtered
             else if tier = ''high'' then filter (\<lambda>item. consumption_kwh item > 5.0) filtered
             else if tier = ''medium'' then
               filter (\<lambda>item. consumption_kwh item \<ge> 2.0 \<and> consumption_kwh item \<le> 5.0) filtered
             else if tier = ''low'' then filter (\<lambda>item. consumption_kwh item < 2.0) filtered
             else filtered)"

section \<open>The same function on a store of arrays and objects\<close>

text \<open>
  JavaScript arrays and objects are references, and \<^verbatim>\<open>sort\<close> works in place. The store
  holds the reading objects and the arrays of references to them; \<open>nextAddr\<close> is the
  first address no array uses yet. \<^verbatim>\<open>[...a]\<close> and \<^verbatim>\<open>a.filter(p)\<close> allocate a new
  array; \<^verbatim>\<open>a.sort(cmp)\<close> overwrites the array \<open>a\<close> and returns \<open>a\<close>.
\<close>

record heap =
  objects :: "nat \<Rightarrow> reading"
  arrays :: "nat \<Rightarrow> nat list"
  nextAddr :: nat

definition newArray :: "nat list \<Rightarrow> heap \<Rightarrow> nat \<times> heap" where
  "newArray refs h =
     (nextAddr h, h\<lparr>arrays := (arrays h)(nextAddr h := refs), nextAddr := Suc (nextAddr h)\<rparr>)"

definition spreadArray :: "nat \<Rightarrow> heap \<Rightarrow> nat \<times> heap" where
  "spreadArray a h = newArray (arrays h a) h"

definition filterArray :: "(reading \<Rightarrow> bool) \<Rightarrow> nat \<Rightarrow> heap \<Rightarrow> nat \<times> heap" where
  "filterArray p a h = newArray (filter (\<lambda>ref. p (objects h ref)) (arrays h a)) h"

definition sortArray :: "(reading \<Rightarrow> 'b::linorder) \<Rightarrow> nat \<Rightarrow> heap \<Rightarrow> nat \<times> heap" where
  "sortArray key a h =
     (a, h\<lparr>arrays := (arrays h)(a := sort_key (\<lambda>ref. key (objects h ref)) (arrays h a))\<rparr>)"

text \<open>\<open>recentReadings\<close> is the address of the caller's array; the result is the address
  of the returned array and the store after the call.\<close>

definition getFilteredReadingsH :: "viewState \<Rightarrow> nat \<Rightarrow> heap \<Rightarrow> nat \<times> heap" where
  "getFilteredReadingsH st recentReadings h0 =
     (let (filtered, h1) = spreadArray recentReadings h0;
          (filtered, h2) =
            (if cardView st = ''anomalies'' then filterArray anomaly_detected filtered h1
             else if cardView st = ''consumption'' then
               sortArray (\<lambda>item. - consumption_kwh item) filtered h1
             else sortArray (\<lambda>item. - timestamp item) filtered h1)
      in case consumptionFilter st of
           None \<Rightarrow> (filtered, h2)
         | Some tier \<Rightarrow>
             if tier = [] then (filtered, h2)
             else if tier = ''high'' then
               filterArray (\<lambda>item. consumption_kwh item > 5.0) filtered h2
             else if tier = ''medium'' then
               filterArray (\<lambda>item. consumption_kwh item \<ge> 2.0 \<and> consumption_kwh item \<le> 5.0)
                 filtered h2
             else if tier = ''low'' then
               filterArray (\<lambda>item. consumption_kwh item < 2.0) filtered h2
             else (filtered, h2))"

text \<open>The readings an array holds, in order.\<close>

definition contents :: "heap \<Rightarrow> nat \<Rightarrow> reading list" where
  "contents h a = map (objects h) (arrays h a)"

section \<open>The component and its payload\<close>

record dailySummary =
  date :: string
  total_consumption_kwh :: real
  total_cost_usd :: real
  peak_device_daily :: "string option"
  peak_device_consumption_daily :: "real option"

record anomaly =
  anomaly_timestamp :: int
  anomaly_device_id :: string
  anomaly_message :: string

text \<open>
  What a top-level key of the payload can hold: nothing (the key is missing, so reading it
  gives \<^verbatim>\<open>undefined\<close>), JSON \<^verbatim>\<open>null\<close>, or a collection of the documented shape.
  Other values of the wrong shape (numbers, strings, nested objects) are not represented.
\<close>

datatype 'a slot = Undefined | Null | Val 'a

datatype error = TypeError

record apiData =
  recentReadings :: "reading list slot"
  dailySummaries :: "dailySummary list slot"
  anomalies :: "anomaly list slot"
  consumptionByDevice :: "(string \<times> real) list slot"

text \<open>A default in a destructuring pattern, \<^verbatim>\<open>{ key = d } = obj\<close>, replaces
  \<^verbatim>\<open>undefined\<close> only.\<close>

fun orDefault :: "'a \<Rightarrow> 'a slot \<Rightarrow> 'a slot" where
  "orDefault d Undefined = Val d"
| "orDefault d Null = Null"
| "orDefault d (Val v) = Val v"

text \<open>A method call or property read on the value (\<^verbatim>\<open>forEach\<close>, \<^verbatim>\<open>find\<close>,
  \<^verbatim>\<open>length\<close>, spread, \<^verbatim>\<open>Object.keys\<close>): a TypeError on \<^verbatim>\<open>undefined\<close> and
  \<^verbatim>\<open>null\<close>.\<close>

fun deref :: "'a slot \<Rightarrow> error + 'a" where
  "deref Undefined = Inl TypeError"
| "deref Null = Inl TypeError"
| "deref (Val v) = Inr v"

text \<open>
  What the component computes before and while rendering. \<open>today\<close> and \<open>yesterday\<close>
  are the texts \<^verbatim>\<open>new Date().toISOString().slice(0, 10)\<close> and the same for 24 hours
  earlier; they are parameters here. \<^verbatim>\<open>find(...) || {}\<close> is an option: \<open>None\<close> for
  the empty object. The daily summary table is rendered from \<open>dailySummaries\<close> as well and
  is left out. The steps are in the order of the source: \<^verbatim>\<open>dailySummaries.find\<close>, the
  two aggregations over \<open>recentReadings\<close>, \<^verbatim>\<open>Object.keys(consumptionByDevice)\<close>, the
  filtered list, and \<^verbatim>\<open>anomalies.length\<close> in the markup. The parent component renders
  \<open>Dashboard\<close> only with a payload object that has at least one key.
\<close>

record dashboardData =
  todaySummary :: "dailySummary option"
  yesterdaySummary :: "dailySummary option"
  consumptionTrendData :: "(int, real) chartData"
  deviceConsumptionBarData :: "(string, cell) chartData outcome"
  pieChartData :: "(string, real) chartData"
  filteredReadings :: "reading list"
  anomalyCount :: nat
  anomalyList :: "anomaly list"
  readingCards :: "(reading \<times> string) list"

definition render ::
  "env \<Rightarrow> string \<Rightarrow> string \<Rightarrow> viewState \<Rightarrow> reading list \<Rightarrow> dailySummary list \<Rightarrow>
     anomaly list \<Rightarrow> (string \<times> real) list \<Rightarrow> dashboardData" where
  "render e today yesterday st readings summaries anoms byDevice =
     \<lparr>todaySummary = find (\<lambda>s. date s = today) summaries,
      yesterdaySummary = find (\<lambda>s. date s = yesterday) summaries,
      consumptionTrendData = aggregateConsumptionByTime e readings (timeFrame st),
      deviceConsumptionBarData = aggregateConsumptionByDevice e readings 1,
      pieChartData =
        \<lparr>labels = objectKeys byDevice, chartValues = map (valueAt byDevice) (objectKeys byDevice)\<rparr>,
      filteredReadings = getFilteredReadings st readings,
      anomalyCount = length anoms,
      anomalyList = take 5 anoms,
      readingCards =
        map (\<lambda>item. (item, generateSmartSuggestion (consumption_kwh item)))
          (take 20 (getFilteredReadings st readings))\<rparr>"

definition Dashboard ::
  "env \<Rightarrow> string \<Rightarrow> string \<Rightarrow> viewState \<Rightarrow> apiData \<Rightarrow> error + dashboardData" where
  "Dashboard e today yesterday st apiData =
     (let recentReadings' = orDefault [] (recentReadings apiData);
          dailySummaries' = orDefault [] (dailySummaries apiData);
          anomalies' = orDefault [] (anomalies apiData);
          consumptionByDevice' = orDefault [] (consumptionByDevice apiData)
      in case deref dailySummaries' of Inl err \<Rightarrow> Inl err | Inr summaries \<Rightarrow>
         (case deref recentReadings' of Inl err \<Rightarrow> Inl err | Inr readings \<Rightarrow>
         (case deref consumptionByDevice' of Inl err \<Rightarrow> Inl err | Inr byDevice \<Rightarrow>
         (case deref anomalies' of Inl err \<Rightarrow> Inl err | Inr anoms \<Rightarrow>
            Inr (render e today yesterday st readings summaries anoms byDevice)))))"

text \<open>The payload in which every missing key holds the empty collection.\<close>

definition withEmptyDefaults :: "apiData \<Rightarrow> apiData" where
  "withEmptyDefaults p =
     \<lparr>recentReadings = orDefault [] (recentReadings p),
      dailySummaries = orDefault [] (dailySummaries p),
      anomalies = orDefault [] (anomalies p),
      consumptionByDevice = orDefault [] (consumptionByDevice p)\<rparr>"

section \<open>The functions on raw payload values\<close>

text \<open>
  The same functions on what JSON can deliver in place of the reading list: the list itself
  can be missing or \<^verbatim>\<open>null\<close>, and an element of the list can be \<^verbatim>\<open>null\<close>
  (\<open>None\<close>). Reading a property of \<^verbatim>\<open>null\<close> raises a TypeError, which ends the call.
  The elements that are objects are readings of the documented shape; the one other
  operation of the source that can raise, \<^verbatim>\<open>toISOString\<close> on an invalid date, needs a
  timestamp that does not parse, which a reading of that shape does not have.
\<close>

fun forEachNewerJS ::
  "(reading \<Rightarrow> 'k) \<Rightarrow> int \<Rightarrow> reading option list \<Rightarrow> ('k \<times> real) list \<Rightarrow>
     error + ('k \<times> real) list" where
  "forEachNewerJS keyOf start [] acc = Inr acc"
| "forEachNewerJS keyOf start (None # rest) acc = Inl TypeError"
| "forEachNewerJS keyOf start (Some item # rest) acc =
     forEachNewerJS keyOf start rest
       (if timestamp item > start then addTo (keyOf item) (consumption_kwh item) acc else acc)"

definition aggregateConsumptionByTimeJS ::
  "env \<Rightarrow> reading option list slot \<Rightarrow> int \<Rightarrow> error + (int, real) chartData" where
  "aggregateConsumptionByTimeJS e readings hours =
     (case deref readings of
        Inl err \<Rightarrow> Inl err
      | Inr items \<Rightarrow>
          (case forEachNewerJS (\<lambda>item. minuteKey e (timestamp item)) (startTime e hours) items []
           of Inl err \<Rightarrow> Inl err
            | Inr consumptionByMinute \<Rightarrow>
                (let ls = sort (map fst consumptionByMinute);
                     vs = map (valueAt consumptionByMinute) ls
                 in Inr \<lparr>labels = ls, chartValues = vs\<rparr>)))"

fun forEachNewerDeviceJS ::
  "int \<Rightarrow> reading option list \<Rightarrow> (string \<times> cell) list \<Rightarrow> error + (string \<times> cell) list" where
  "forEachNewerDeviceJS start [] acc = Inr acc"
| "forEachNewerDeviceJS start (None # rest) acc = Inl TypeError"
| "forEachNewerDeviceJS start (Some item # rest) acc =
     forEachNewerDeviceJS start rest
       (if timestamp item > start then addToObject (device_id item) (consumption_kwh item) acc
        else acc)"

definition aggregateConsumptionByDeviceJS ::
  "env \<Rightarrow> reading option list slot \<Rightarrow> int \<Rightarrow> error + (string, cell) chartData outcome" where
  "aggregateConsumptionByDeviceJS e readings hours =
     (case deref readings of
        Inl err \<Rightarrow> Inl err
      | Inr items \<Rightarrow>
          (case forEachNewerDeviceJS (startTime e hours) items [] of
             Inl err \<Rightarrow> Inl err
           | Inr byDevice \<Rightarrow> Inr (rankDevices byDevice)))"

text \<open>\<^verbatim>\<open>arr.filter(item => p(item))\<close>, where \<open>p\<close> reads a property of the item.\<close>

fun filterJS :: "('a \<Rightarrow> bool) \<Rightarrow> 'a option list \<Rightarrow> error + 'a option list" where
  "filterJS p [] = Inr []"
| "filterJS p (None # rest) = Inl TypeError"
| "filterJS p (Some item # rest) =
     (case filterJS p rest of
        Inl err \<Rightarrow> Inl err
      | Inr kept \<Rightarrow> Inr (if p item then Some item # kept else kept))"

text \<open>The items of a list when none is \<^verbatim>\<open>null\<close>; the error of reading a property of
  the first \<^verbatim>\<open>null\<close> otherwise.\<close>

fun allPresent :: "'a option list \<Rightarrow> error + 'a list" where
  "allPresent [] = Inr []"
| "allPresent (None # rest) = Inl TypeError"
| "allPresent (Some item # rest) =
     (case allPresent rest of Inl err \<Rightarrow> Inl err | Inr items \<Rightarrow> Inr (item # items))"

text \<open>
  \<^verbatim>\<open>arr.sort((a, b) => key(b) - key(a))\<close>, where the comparator reads a property of
  both items. A list of at most one element is returned without a call of the comparator;
  in a longer list every element is compared at least once, so a \<^verbatim>\<open>null\<close> raises.
\<close>

definition sortJS :: "('a \<Rightarrow> 'b::linorder) \<Rightarrow> 'a option list \<Rightarrow> error + 'a option list" where
  "sortJS negKey items =
     (if length items \<le> 1 then Inr items
      else case allPresent items of
             Inl err \<Rightarrow> Inl err
           | Inr present \<Rightarrow> Inr (map Some (sort_key negKey present)))"

definition getFilteredReadingsJS ::
  "viewState \<Rightarrow> reading option list slot \<Rightarrow> error + reading option list" where
  "getFilteredReadingsJS st recentReadingsJS =
     (case deref recentReadingsJS of
        Inl err \<Rightarrow> Inl err
      | Inr copy \<Rightarrow>
          (case (if cardView st = ''anomalies'' then filterJS anomaly_detected copy
                 else if cardView st = ''consumption'' then
                   sortJS (\<lambda>item. - consumption_kwh item) copy
                 else sortJS (\<lambda>item. - timestamp item) copy)
           of Inl err \<Rightarrow> Inl err
            | Inr filtered \<Rightarrow>
                (case consumptionFilter st of
                   None \<Rightarrow> Inr filtered
                 | Some tier \<Rightarrow>
                     if tier = [] then Inr filtered
                     else if tier = ''high'' then
                       filterJS (\<lambda>item. consumption_kwh item > 5.0) filtered
                     else if tier = ''medium'' then
                       filterJS (\<lambda>item. consumption_kwh item \<ge> 2.0 \<and> consumption_kwh item \<le> 5.0)
                         filtered
                     else if tier = ''low'' then
                       filterJS (\<lambda>item. consumption_kwh item < 2.0) filtered
                     else Inr filtered)))"

section \<open>Facts about the aggregation helpers\<close>

lemma orZero_Some: "orZero (Some w) = w"
  by simp

lemma map_fst_addTo:
  "map fst (addTo k v kvs) = (if k \<in> fst ` set kvs then map fst kvs else map fst kvs @ [k])"
  by (induction kvs) (force+)


lemma distinct_addTo: "distinct (map fst kvs) \<Longrightarrow> distinct (map fst (addTo k v kvs))"
  unfolding map_fst_addTo by auto

lemma sum_addTo: "sum_list (map snd (addTo k v kvs)) = sum_list (map snd kvs) + v"
  by (induction kvs) auto


lemma distinct_forEachNewer:
  "distinct (map fst acc) \<Longrightarrow> distinct (map fst (forEachNewer keyOf start rs acc))"
  by (induction rs arbitrary: acc) (auto simp: distinct_addTo)

lemma sum_forEachNewer:
  "sum_list (map snd (forEachNewer keyOf start rs acc)) =
     sum_list (map snd acc) + sum_list (map consumption_kwh (filter (\<lambda>r. timestamp r > start) rs))"
  by (induction rs arbitrary: acc) (auto simp: sum_addTo)

lemma valueAt_keys: "distinct (map fst kvs) \<Longrightarrow> map (valueAt kvs) (map fst kvs) = map snd kvs"
  by (induction kvs) (auto simp: valueAt_def image_iff)

lemma sum_valueAt_perm:
  fixes kvs :: "('k \<times> real) list"
  assumes "distinct (map fst kvs)" and "mset ls = mset (map fst kvs)"
  shows "sum_list (map (valueAt kvs) ls) = sum_list (map snd kvs)"
proof -
  have "sum_list (map (valueAt kvs) ls) = sum_mset (image_mset (valueAt kvs) (mset ls))"
    by (simp add: sum_mset_sum_list flip: mset_map)
  also have "\<dots> = sum_list (map (valueAt kvs) (map fst kvs))"
    using assms(2) by (simp only: sum_mset_sum_list flip: mset_map)
  finally show ?thesis using assms(1) by (simp only: valueAt_keys)
qed

lemma forEachNewer_none:
  "\<forall>r\<in>set rs. timestamp r \<le> start \<Longrightarrow> forEachNewer keyOf start rs acc = acc"
  by (induction rs arbitrary: acc) auto

lemma sum_chartValues_byTime:
  "sum_list (chartValues (aggregateConsumptionByTime e rs W)) =
     sum_list (map consumption_kwh (filter (\<lambda>r. timestamp r > startTime e W) rs))"
proof -
  define kvs where
    "kvs = forEachNewer (\<lambda>item. minuteKey e (timestamp item)) (startTime e W) rs []"
  have d: "distinct (map fst kvs)"
    unfolding kvs_def by (rule distinct_forEachNewer) simp
  have "sum_list (map (valueAt kvs) (sort (map fst kvs))) = sum_list (map snd kvs)"
    by (rule sum_valueAt_perm [OF d]) simp
  also have "\<dots> = sum_list (map consumption_kwh (filter (\<lambda>r. timestamp r > startTime e W) rs))"
    unfolding kvs_def by (simp add: sum_forEachNewer)
  finally show ?thesis
    by (simp add: aggregateConsumptionByTime_def Let_def kvs_def)
qed


section \<open>Facts about local time\<close>













section \<open>Time buckets and the cutoff\<close>


text \<open>
  In a zone with daylight saving the label can be earlier still. New York leaves daylight
  saving time on 2026-11-01 at 06:00:00 UTC (offset 240 before, 300 after). With the clock
  at 07:00:10 UTC and a window of one hour the cutoff is 06:00:10 UTC; a reading at
  06:00:30 UTC is kept, its wall clock reads 01:00, which was first shown at 05:00:00 UTC,
  and that instant is its label.
\<close>

lemma label_in_repeated_hour:
  "labels (aggregateConsumptionByTime
      \<lparr>now = 1793516410000, tzOffset = 240, tzChanges = [(1793512800000, 300)]\<rparr>
      [\<lparr>device_id = ''A'', location = ''hall'', timestamp = 1793512830000,
        consumption_kwh = 1, status = ''on'', anomaly_detected = False\<rparr>] 1)
     = [1793509200000]
   \<and> startTime \<lparr>now = 1793516410000, tzOffset = 240, tzChanges = [(1793512800000, 300)]\<rparr> 1
     = 1793512810000"
  by (simp add: aggregateConsumptionByTime_def Let_def startTime_def minuteKey_def UTC_def
      possibleInstants_def LocalTime_def getTimezoneOffset_def)

text \<open>A wall-clock time skipped when the clocks go forward is read with the offset before
  the change: in New York, 02:30 on 2026-03-08 is 07:30:00 UTC.\<close>

lemma skipped_wall_clock_time:
  "UTC \<lparr>now = 0, tzOffset = 300, tzChanges = [(1772953200000, 240)]\<rparr> 1772937000000
     = 1772955000000"
  by (simp add: UTC_def possibleInstants_def LocalTime_def getTimezoneOffset_def)



section \<open>Conservation of consumption over the time buckets\<close>

text \<open>
  Claim C2: the bucket values add up to the consumption of exactly the readings strictly
  later than the cutoff (for every window, positive or not); the series of the empty list
  is empty, and so is the series of a list whose readings are all at or before the cutoff.
\<close>

theorem bucket_values_conserve_consumption:
  "sum_list (chartValues (aggregateConsumptionByTime e rs W)) =
     sum_list (map consumption_kwh (filter (\<lambda>r. timestamp r > startTime e W) rs))
   \<and> aggregateConsumptionByTime e [] W = \<lparr>labels = [], chartValues = []\<rparr>
   \<and> ((\<forall>r\<in>set rs. timestamp r \<le> startTime e W) \<longrightarrow>
        aggregateConsumptionByTime e rs W = \<lparr>labels = [], chartValues = []\<rparr>)"
  by (simp add: sum_chartValues_byTime)
     (simp add: aggregateConsumptionByTime_def Let_def forEachNewer_none)

theorem bucket_values_conserve_consumption_witness:
  "timestamp \<lparr>device_id = ''A'', location = ''hall'', timestamp = 20000, consumption_kwh = 3,
       status = ''on'', anomaly_detected = False\<rparr>
     \<le> startTime \<lparr>now = 3630000, tzOffset = 0, tzChanges = []\<rparr> 1
   \<and> aggregateConsumptionByTime \<lparr>now = 3630000, tzOffset = 0, tzChanges = []\<rparr>
        [\<lparr>device_id = ''A'', location = ''hall'', timestamp = 20000, consumption_kwh = 3,
          status = ''on'', anomaly_detected = False\<rparr>] 1 = \<lparr>labels = [], chartValues = []\<rparr>"
proof -
  have h: "\<forall>r\<in>set [\<lparr>device_id = ''A'', location = ''hall'', timestamp = 20000,
        consumption_kwh = 3, status = ''on'', anomaly_detected = False\<rparr>].
      timestamp r \<le> startTime \<lparr>now = 3630000, tzOffset = 0, tzChanges = []\<rparr> 1"
    by (simp add: startTime_def)
  from bucket_values_conserve_consumption
    [of "\<lparr>now = 3630000, tzOffset = 0, tzChanges = []\<rparr>"
        "[\<lparr>device_id = ''A'', location = ''hall'', timestamp = 20000, consumption_kwh = 3,
           status = ''on'', anomaly_detected = False\<rparr>]" 1] h
  show ?thesis by simp
qed

section \<open>The device ranking\<close>

lemma mset_objectKeys: "mset (objectKeys obj) = mset (map fst obj)"
  by (simp add: objectKeys_def)

lemma length_objectKeys: "length (objectKeys obj) = length obj"
  using arg_cong [OF mset_objectKeys, of size obj] by simp

lemma set_objectKeys: "set (objectKeys obj) = fst ` set obj"
  using arg_cong [OF mset_objectKeys, of set_mset obj] by simp

lemma descending_sort_key:
  fixes v :: "'k \<Rightarrow> real"
  shows "sorted_wrt (\<ge>) (map v (take n (sort_key (\<lambda>k. - v k) ks)))"
proof -
  have "sorted (map (\<lambda>k. - v k) (sort_key (\<lambda>k. - v k) ks))"
    by (rule sorted_sort_key)
  then have "sorted_wrt (\<lambda>a b. v a \<ge> v b) (sort_key (\<lambda>k. - v k) ks)"
    by (simp add: sorted_wrt_map)
  then have "sorted_wrt (\<lambda>a b. v a \<ge> v b) (take n (sort_key (\<lambda>k. - v k) ks))"
    by (rule sorted_wrt_take)
  then show ?thesis by (simp add: sorted_wrt_map)
qed

lemma map_fst_addToObject:
  "map fst (addToObject k v kvs) =
     (if k \<in> fst ` set kvs \<or> k = ''__proto__'' then map fst kvs else map fst kvs @ [k])"
  by (induction kvs) (force+)

lemma keys_addToObject: "fst ` set (addToObject k v kvs) \<subseteq> insert k (fst ` set kvs)"
proof -
  have "set (map fst (addToObject k v kvs)) \<subseteq> insert k (set (map fst kvs))"
    unfolding map_fst_addToObject by auto
  then show ?thesis by simp
qed

lemma distinct_addToObject:
  "distinct (map fst kvs) \<Longrightarrow> distinct (map fst (addToObject k v kvs))"
  unfolding map_fst_addToObject by auto

lemma numbers_addToObject:
  "\<forall>(k', c)\<in>set kvs. c \<noteq> Text \<Longrightarrow> k \<notin> set inheritedFunctions \<Longrightarrow>
     \<forall>(k', c)\<in>set (addToObject k v kvs). c \<noteq> Text"
  by (induction kvs) (auto split: cell.splits if_splits)

lemma keys_forEachNewerDevice:
  "fst ` set (forEachNewerDevice start rs acc) \<subseteq>
     fst ` set acc \<union> device_id ` {r \<in> set rs. timestamp r > start}"
proof (induction rs arbitrary: acc)
  case Nil
  show ?case by simp
next
  case (Cons r rs)
  show ?case
  proof (cases "timestamp r > start")
    case True
    have "fst ` set (forEachNewerDevice start (r # rs) acc)
        \<subseteq> fst ` set (addToObject (device_id r) (consumption_kwh r) acc)
          \<union> device_id ` {r \<in> set rs. timestamp r > start}"
      using Cons [of "addToObject (device_id r) (consumption_kwh r) acc"] True by simp
    also have "\<dots> \<subseteq> insert (device_id r) (fst ` set acc)
          \<union> device_id ` {r \<in> set rs. timestamp r > start}"
      using keys_addToObject [of "device_id r" "consumption_kwh r" acc] by blast
    also have "\<dots> \<subseteq> fst ` set acc \<union> device_id ` {x \<in> set (r # rs). timestamp x > start}"
      using True by auto
    finally show ?thesis .
  next
    case False
    have "fst ` set (forEachNewerDevice start (r # rs) acc)
        \<subseteq> fst ` set acc \<union> device_id ` {r \<in> set rs. timestamp r > start}"
      using Cons [of acc] False by simp
    also have "\<dots> \<subseteq> fst ` set acc \<union> device_id ` {x \<in> set (r # rs). timestamp x > start}"
      by auto
    finally show ?thesis .
  qed
qed

lemma distinct_forEachNewerDevice:
  "distinct (map fst acc) \<Longrightarrow> distinct (map fst (forEachNewerDevice start rs acc))"
  by (induction rs arbitrary: acc) (auto simp: distinct_addToObject)

lemma numbers_forEachNewerDevice:
  "\<forall>(k, c)\<in>set acc. c \<noteq> Text \<Longrightarrow>
   \<forall>r\<in>set rs. start < timestamp r \<longrightarrow> device_id r \<notin> set inheritedFunctions \<Longrightarrow>
     \<forall>(k, c)\<in>set (forEachNewerDevice start rs acc). c \<noteq> Text"
proof (induction rs arbitrary: acc)
  case Nil
  then show ?case by simp
next
  case (Cons r rs)
  show ?case
  proof (cases "timestamp r > start")
    case True
    with Cons.prems have "device_id r \<notin> set inheritedFunctions" by simp
    from numbers_addToObject [OF Cons.prems(1) this]
    have "\<forall>(k, c)\<in>set (addToObject (device_id r) (consumption_kwh r) acc). c \<noteq> Text" .
    from Cons.IH [OF this] Cons.prems(2) True show ?thesis by simp
  next
    case False
    from Cons.IH [OF Cons.prems(1)] Cons.prems(2) False show ?thesis by simp
  qed
qed

lemma valueAt_own: "k \<in> fst ` set kvs \<Longrightarrow> (k, valueAt kvs k) \<in> set kvs"
proof -
  assume "k \<in> fst ` set kvs"
  then obtain c where "map_of kvs k = Some c"
    by (metis image_set map_of_eq_None_iff not_None_eq)
  then show ?thesis by (simp add: valueAt_def map_of_SomeD)
qed

lemma number_cell: "c \<noteq> Text \<Longrightarrow> c = Num (the (toNumber c))"
  by (cases c) simp_all

lemma rankDevices_numbers:
  assumes "\<forall>(k, c)\<in>set obj. c \<noteq> Text"
  shows "rankDevices obj =
     Returns \<lparr>labels = take 5 (sort_key (\<lambda>k. - the (toNumber (valueAt obj k))) (objectKeys obj)),
       chartValues = map Num (map (\<lambda>k. the (toNumber (valueAt obj k)))
         (take 5 (sort_key (\<lambda>k. - the (toNumber (valueAt obj k))) (objectKeys obj))))\<rparr>"
proof -
  have num: "valueAt obj k \<noteq> Text" if "k \<in> set (objectKeys obj)" for k
    using valueAt_own [of k obj] that assms by (auto simp: set_objectKeys)
  have all: "list_all (\<lambda>k. toNumber (valueAt obj k) \<noteq> None) (objectKeys obj)"
    unfolding list_all_iff
  proof
    fix k assume "k \<in> set (objectKeys obj)"
    from num [OF this] show "toNumber (valueAt obj k) \<noteq> None"
      by (cases "valueAt obj k") simp_all
  qed
  let ?ls = "take 5 (sort_key (\<lambda>k. - the (toNumber (valueAt obj k))) (objectKeys obj))"
  have "map (valueAt obj) ?ls = map Num (map (\<lambda>k. the (toNumber (valueAt obj k))) ?ls)"
  proof -
    have "valueAt obj k = Num (the (toNumber (valueAt obj k)))" if "k \<in> set ?ls" for k
    proof -
      from that have "k \<in> set (objectKeys obj)" by (auto dest: in_set_takeD)
      from number_cell [OF num [OF this]] show ?thesis .
    qed
    then show ?thesis by (simp add: comp_def cong: map_cong)
  qed
  with all show ?thesis by (simp add: rankDevices_def Let_def)
qed

lemma devices_in_window:
  "length (forEachNewerDevice start rs []) \<le>
     card (device_id ` {r \<in> set rs. timestamp r > start})"
proof -
  define kvs where "kvs = forEachNewerDevice start rs []"
  have d: "distinct (map fst kvs)"
    unfolding kvs_def by (rule distinct_forEachNewerDevice) simp
  have "fst ` set kvs \<subseteq> device_id ` {r \<in> set rs. timestamp r > start}"
    unfolding kvs_def using keys_forEachNewerDevice [of start rs "[]"] by simp
  then have "card (fst ` set kvs) \<le> card (device_id ` {r \<in> set rs. timestamp r > start})"
    by (intro card_mono) simp_all
  moreover have "card (fst ` set kvs) = length kvs"
    using distinct_card [OF d] by simp
  ultimately show ?thesis by (simp add: kvs_def)
qed

text \<open>
  Claim C3, as stated, fails on ties: two devices with one reading of 1 kWh each, both inside
  the window, are ranked with the values 1 and 1, and 1 is not strictly greater than 1.
\<close>

theorem device_ranking_tie_not_strict:
  "aggregateConsumptionByDevice \<lparr>now = 3630000, tzOffset = 0, tzChanges = []\<rparr>
      [\<lparr>device_id = ''A'', location = ''hall'', timestamp = 3600000, consumption_kwh = 1,
        status = ''on'', anomaly_detected = False\<rparr>,
       \<lparr>device_id = ''B'', location = ''hall'', timestamp = 3600000, consumption_kwh = 1,
        status = ''on'', anomaly_detected = False\<rparr>] 1
     = Returns \<lparr>labels = [''A'', ''B''], chartValues = [Num 1, Num 1]\<rparr>"
proof -
  have loop: "forEachNewerDevice
      (startTime \<lparr>now = 3630000, tzOffset = 0, tzChanges = []\<rparr> 1)
      [\<lparr>device_id = ''A'', location = ''hall'', timestamp = 3600000, consumption_kwh = 1,
        status = ''on'', anomaly_detected = False\<rparr>,
       \<lparr>device_id = ''B'', location = ''hall'', timestamp = 3600000, consumption_kwh = 1,
        status = ''on'', anomaly_detected = False\<rparr>] [] = [(''A'', Num 1), (''B'', Num 1)]"
    by (simp add: startTime_def inheritedFunctions_def)
  have keys: "objectKeys [(''A'', Num 1), (''B'', Num 1)] = [''A'', ''B'']"
    by (simp add: objectKeys_def isArrayIndex_def isDigit_def)
  show ?thesis
    unfolding aggregateConsumptionByDevice_def loop rankDevices_def Let_def keys
    by (simp add: valueAt_def)
qed

text \<open>
  A device id that names a member of \<^verbatim>\<open>Object.prototype\<close>: \<^verbatim>\<open>__proto__\<close> is not
  stored, so the device is missing from the ranking; \<^verbatim>\<open>constructor\<close> is stored with a
  text, and next to a second device the order is left to the engine.
\<close>

lemma proto_key_is_not_stored:
  "aggregateConsumptionByDevice \<lparr>now = 3630000, tzOffset = 0, tzChanges = []\<rparr>
      [\<lparr>device_id = ''__proto__'', location = ''hall'', timestamp = 3600000,
        consumption_kwh = 1, status = ''on'', anomaly_detected = False\<rparr>] 1
     = Returns \<lparr>labels = [], chartValues = []\<rparr>"
  by (simp add: aggregateConsumptionByDevice_def startTime_def rankDevices_def objectKeys_def)

lemma inherited_function_key_holds_text:
  "aggregateConsumptionByDevice \<lparr>now = 3630000, tzOffset = 0, tzChanges = []\<rparr>
      [\<lparr>device_id = ''constructor'', location = ''hall'', timestamp = 3600000,
        consumption_kwh = 1, status = ''on'', anomaly_detected = False\<rparr>] 1
     = Returns \<lparr>labels = [''constructor''], chartValues = [Text]\<rparr>
   \<and> aggregateConsumptionByDevice \<lparr>now = 3630000, tzOffset = 0, tzChanges = []\<rparr>
      [\<lparr>device_id = ''constructor'', location = ''hall'', timestamp = 3600000,
        consumption_kwh = 1, status = ''on'', anomaly_detected = False\<rparr>,
       \<lparr>device_id = ''A'', location = ''hall'', timestamp = 3600000,
        consumption_kwh = 2, status = ''on'', anomaly_detected = False\<rparr>] 1
     = EngineDefined"
proof -
  have loop1: "forEachNewerDevice
      (startTime \<lparr>now = 3630000, tzOffset = 0, tzChanges = []\<rparr> 1)
      [\<lparr>device_id = ''constructor'', location = ''hall'', timestamp = 3600000,
        consumption_kwh = 1, status = ''on'', anomaly_detected = False\<rparr>] []
      = [(''constructor'', Text)]"
    by (simp add: startTime_def inheritedFunctions_def)
  have loop2: "forEachNewerDevice
      (startTime \<lparr>now = 3630000, tzOffset = 0, tzChanges = []\<rparr> 1)
      [\<lparr>device_id = ''constructor'', location = ''hall'', timestamp = 3600000,
        consumption_kwh = 1, status = ''on'', anomaly_detected = False\<rparr>,
       \<lparr>device_id = ''A'', location = ''hall'', timestamp = 3600000,
        consumption_kwh = 2, status = ''on'', anomaly_detected = False\<rparr>] []
      = [(''constructor'', Text), (''A'', Num 2)]"
    by (simp add: startTime_def inheritedFunctions_def)
  have keys1: "objectKeys [(''constructor'', Text)] = [''constructor'']"
    by (simp add: objectKeys_def isArrayIndex_def isDigit_def)
  have keys2: "objectKeys [(''constructor'', Text), (''A'', Num 2)] = [''constructor'', ''A'']"
    by (simp add: objectKeys_def isArrayIndex_def isDigit_def)
  show ?thesis
    unfolding aggregateConsumptionByDevice_def loop1 loop2 rankDevices_def Let_def keys1 keys2
    by (simp add: valueAt_def)
qed

text \<open>
  Claim C3, amended: for every reading list and window in which no reading strictly later
  than the cutoff has a device id that names a function member of \<^verbatim>\<open>Object.prototype\<close>
  (\<^verbatim>\<open>constructor\<close>, \<^verbatim>\<open>toString\<close>, \<^verbatim>\<open>valueOf\<close> and the like), the ranking has at most
  min(5, number of distinct device ids among those readings) entries, one value per label,
  every value is a number, and the values are descending in the weak sense: each value is
  greater than or equal to the next.
\<close>

theorem device_ranking_length_and_order:
  assumes "\<forall>r\<in>set rs. startTime e W < timestamp r \<longrightarrow> device_id r \<notin> set inheritedFunctions"
  shows "\<exists>ls vs. aggregateConsumptionByDevice e rs W
             = Returns \<lparr>labels = ls, chartValues = map Num vs\<rparr>
           \<and> length ls \<le> min 5 (card (device_id ` {r \<in> set rs. timestamp r > startTime e W}))
           \<and> length vs = length ls
           \<and> sorted_wrt (\<ge>) vs"
proof -
  define obj where "obj = forEachNewerDevice (startTime e W) rs []"
  define v where "v = (\<lambda>k. the (toNumber (valueAt obj k)))"
  define ls where "ls = take 5 (sort_key (\<lambda>k. - v k) (objectKeys obj))"
  have "\<forall>(k, c)\<in>set obj. c \<noteq> Text"
    unfolding obj_def by (rule numbers_forEachNewerDevice [OF _ assms]) simp
  from rankDevices_numbers [OF this]
  have "aggregateConsumptionByDevice e rs W = Returns \<lparr>labels = ls, chartValues = map Num (map v ls)\<rparr>"
    by (simp add: aggregateConsumptionByDevice_def obj_def ls_def v_def)
  moreover have "length ls \<le> min 5 (card (device_id ` {r \<in> set rs. timestamp r > startTime e W}))"
    using devices_in_window [of "startTime e W" rs]
    by (simp add: ls_def length_objectKeys obj_def)
  moreover have "sorted_wrt (\<ge>) (map v ls)"
    unfolding ls_def by (rule descending_sort_key)
  ultimately show ?thesis by (intro exI [of _ ls] exI [of _ "map v ls"]) simp
qed

theorem device_ranking_length_and_order_witness:
  "device_id \<lparr>device_id = ''A'', location = ''hall'', timestamp = 3600000, consumption_kwh = 6,
        status = ''on'', anomaly_detected = False\<rparr> \<notin> set inheritedFunctions
   \<and> device_id \<lparr>device_id = ''B'', location = ''attic'', timestamp = 3600000,
        consumption_kwh = 1, status = ''on'', anomaly_detected = False\<rparr>
       \<notin> set inheritedFunctions
   \<and> (\<exists>ls vs. aggregateConsumptionByDevice
         \<lparr>now = 3630000, tzOffset = 0, tzChanges = []\<rparr>
         [\<lparr>device_id = ''A'', location = ''hall'', timestamp = 3600000, consumption_kwh = 6,
           status = ''on'', anomaly_detected = False\<rparr>,
          \<lparr>device_id = ''B'', location = ''attic'', timestamp = 3600000, consumption_kwh = 1,
           status = ''on'', anomaly_detected = False\<rparr>] 1
         = Returns \<lparr>labels = ls, chartValues = map Num vs\<rparr>
       \<and> length vs = length ls \<and> sorted_wrt (\<ge>) vs)"
proof -
  have a: "''A'' \<notin> set inheritedFunctions" and b: "''B'' \<notin> set inheritedFunctions"
    by (simp_all add: inheritedFunctions_def)
  have h: "\<forall>r\<in>set [\<lparr>device_id = ''A'', location = ''hall'', timestamp = 3600000,
           consumption_kwh = 6, status = ''on'', anomaly_detected = False\<rparr>,
          \<lparr>device_id = ''B'', location = ''attic'', timestamp = 3600000, consumption_kwh = 1,
           status = ''on'', anomaly_detected = False\<rparr>].
        startTime \<lparr>now = 3630000, tzOffset = 0, tzChanges = []\<rparr> 1 < timestamp r \<longrightarrow>
        device_id r \<notin> set inheritedFunctions"
    using a b by simp
  from device_ranking_length_and_order [OF h] a b show ?thesis by (simp; blast)
qed

section \<open>The filtered reading list\<close>

lemma descending_sort_key_filter:
  fixes c :: "'a \<Rightarrow> real"
  shows "sorted_wrt (\<lambda>a b. c a \<ge> c b) (filter P (sort_key (\<lambda>x. - c x) xs))"
proof -
  have "sorted (map (\<lambda>x. - c x) (sort_key (\<lambda>x. - c x) xs))"
    by (rule sorted_sort_key)
  then have "sorted_wrt (\<lambda>a b. c a \<ge> c b) (sort_key (\<lambda>x. - c x) xs)"
    by (simp add: sorted_wrt_map)
  then show ?thesis by (rule sorted_wrt_filter)
qed



text \<open>
  Claim C4: in the anomalies view with no tier selected, the result is the input list
  filtered by \<open>anomaly_detected\<close>: every element of the result is flagged, every flagged
  element of the input is in the result, and the input's order is kept.
\<close>

theorem anomaly_view_is_filter_of_input:
  assumes "cardView st = ''anomalies''" and "consumptionFilter st = None"
  shows "getFilteredReadings st rs = filter anomaly_detected rs
       \<and> (\<forall>r\<in>set (getFilteredReadings st rs). anomaly_detected r)
       \<and> (\<forall>r\<in>set rs. anomaly_detected r \<longrightarrow> r \<in> set (getFilteredReadings st rs))"
  using assms by (simp add: getFilteredReadings_def)

theorem anomaly_view_is_filter_of_input_witness:
  "cardView \<lparr>cardView = ''anomalies'', consumptionFilter = None, timeFrame = 1\<rparr> = ''anomalies'' \<and> consumptionFilter \<lparr>cardView = ''anomalies'', consumptionFilter = None, timeFrame = 1\<rparr> = None
   \<and> getFilteredReadings \<lparr>cardView = ''anomalies'', consumptionFilter = None, timeFrame = 1\<rparr>
      [\<lparr>device_id = ''B'', location = ''attic'', timestamp = 3300000, consumption_kwh = 1,
        status = ''on'', anomaly_detected = False\<rparr>,
       \<lparr>device_id = ''A'', location = ''hall'', timestamp = 3300000, consumption_kwh = 6,
        status = ''on'', anomaly_detected = True\<rparr>,
       \<lparr>device_id = ''C'', location = ''shed'', timestamp = 3400000, consumption_kwh = 7,
        status = ''on'', anomaly_detected = False\<rparr>]
     = filter anomaly_detected
      [\<lparr>device_id = ''B'', location = ''attic'', timestamp = 3300000, consumption_kwh = 1,
        status = ''on'', anomaly_detected = False\<rparr>,
       \<lparr>device_id = ''A'', location = ''hall'', timestamp = 3300000, consumption_kwh = 6,
        status = ''on'', anomaly_detected = True\<rparr>,
       \<lparr>device_id = ''C'', location = ''shed'', timestamp = 3400000, consumption_kwh = 7,
        status = ''on'', anomaly_detected = False\<rparr>]"
proof -
  have h1: "cardView \<lparr>cardView = ''anomalies'', consumptionFilter = None, timeFrame = 1\<rparr> = ''anomalies''" by simp
  have h2: "consumptionFilter \<lparr>cardView = ''anomalies'', consumptionFilter = None, timeFrame = 1\<rparr> = None" by simp
  from anomaly_view_is_filter_of_input [OF h1 h2] h1 h2 show ?thesis by blast
qed

text \<open>
  Claim C5: in the consumption view with the tier \<open>high\<close>, every element of the result has
  a consumption above 5.0, every input element above 5.0 is in the result (as often as in
  the input), and the result is sorted descending by consumption.
\<close>

theorem high_tier_of_consumption_view:
  assumes "cardView st = ''consumption''" and "consumptionFilter st = Some ''high''"
  shows "(\<forall>r\<in>set (getFilteredReadings st rs). consumption_kwh r > 5)
       \<and> (\<forall>r\<in>set rs. consumption_kwh r > 5 \<longrightarrow> r \<in> set (getFilteredReadings st rs))
       \<and> mset (getFilteredReadings st rs) = mset (filter (\<lambda>r. consumption_kwh r > 5) rs)
       \<and> sorted_wrt (\<lambda>a b. consumption_kwh a \<ge> consumption_kwh b) (getFilteredReadings st rs)"
proof -
  have eq: "getFilteredReadings st rs =
      filter (\<lambda>r. consumption_kwh r > 5) (sort_key (\<lambda>r. - consumption_kwh r) rs)"
    using assms by (simp add: getFilteredReadings_def)
  show ?thesis unfolding eq
    by (simp add: descending_sort_key_filter)
qed

theorem high_tier_of_consumption_view_witness:
  "cardView \<lparr>cardView = ''consumption'', consumptionFilter = Some ''high'', timeFrame = 1\<rparr> = ''consumption''
   \<and> consumptionFilter \<lparr>cardView = ''consumption'', consumptionFilter = Some ''high'', timeFrame = 1\<rparr> = Some ''high''
   \<and> mset (getFilteredReadings \<lparr>cardView = ''consumption'', consumptionFilter = Some ''high'', timeFrame = 1\<rparr>
      [\<lparr>device_id = ''B'', location = ''attic'', timestamp = 3300000, consumption_kwh = 1,
        status = ''on'', anomaly_detected = False\<rparr>,
       \<lparr>device_id = ''A'', location = ''hall'', timestamp = 3300000, consumption_kwh = 6,
        status = ''on'', anomaly_detected = True\<rparr>,
       \<lparr>device_id = ''C'', location = ''shed'', timestamp = 3400000, consumption_kwh = 7,
        status = ''on'', anomaly_detected = False\<rparr>])
     = mset (filter (\<lambda>r. consumption_kwh r > 5)
      [\<lparr>device_id = ''B'', location = ''attic'', timestamp = 3300000, consumption_kwh = 1,
        status = ''on'', anomaly_detected = False\<rparr>,
       \<lparr>device_id = ''A'', location = ''hall'', timestamp = 3300000, consumption_kwh = 6,
        status = ''on'', anomaly_detected = True\<rparr>,
       \<lparr>device_id = ''C'', location = ''shed'', timestamp = 3400000, consumption_kwh = 7,
        status = ''on'', anomaly_detected = False\<rparr>])
   \<and> sorted_wrt (\<lambda>a b. consumption_kwh a \<ge> consumption_kwh b)
       (getFilteredReadings \<lparr>cardView = ''consumption'', consumptionFilter = Some ''high'', timeFrame = 1\<rparr>
      [\<lparr>device_id = ''B'', location = ''attic'', timestamp = 3300000, consumption_kwh = 1,
        status = ''on'', anomaly_detected = False\<rparr>,
       \<lparr>device_id = ''A'', location = ''hall'', timestamp = 3300000, consumption_kwh = 6,
        status = ''on'', anomaly_detected = True\<rparr>,
       \<lparr>device_id = ''C'', location = ''shed'', timestamp = 3400000, consumption_kwh = 7,
        status = ''on'', anomaly_detected = False\<rparr>])"
proof -
  have h1: "cardView \<lparr>cardView = ''consumption'', consumptionFilter = Some ''high'', timeFrame = 1\<rparr> = ''consumption''"
    by simp
  have h2: "consumptionFilter \<lparr>cardView = ''consumption'', consumptionFilter = Some ''high'', timeFrame = 1\<rparr> = Some ''high''"
    by simp
  from high_tier_of_consumption_view [OF h1 h2] h1 h2 show ?thesis by blast
qed

section \<open>The suggestion rule and the consumption tiers\<close>

text \<open>
  Claim C6: the suggestion is the HighUsage text for every x > 5, the ModerateUsage text
  for every x with 2 \<le> x \<le> 5, and the LowUsage text for every other x, which are the
  x < 2, negative ones included; the boundary values 5.0, 5.01, 2.0 and 1.99 fall as
  stated, and the three texts differ, so the text determines the category.
\<close>

theorem suggestion_boundaries:
  "generateSmartSuggestion x =
     advisory (if x > 5 then HighUsage else if 2 \<le> x \<and> x \<le> 5 then ModerateUsage else LowUsage)
   \<and> (x < 2) = (\<not> x > 5 \<and> \<not> (2 \<le> x \<and> x \<le> 5))
   \<and> generateSmartSuggestion 5.0 = advisory ModerateUsage
   \<and> generateSmartSuggestion 5.01 = advisory HighUsage
   \<and> generateSmartSuggestion 2.0 = advisory ModerateUsage
   \<and> generateSmartSuggestion 1.99 = advisory LowUsage
   \<and> generateSmartSuggestion (- 1) = advisory LowUsage
   \<and> distinct [advisory HighUsage, advisory ModerateUsage, advisory LowUsage]"
  by (simp add: generateSmartSuggestion_def)


section \<open>The caller's array\<close>

lemma insort_key_map:
  "insort_key k (f x) (map f xs) = map f (insort_key (\<lambda>x. k (f x)) x xs)"
  by (induction xs) auto

lemma sort_key_map: "sort_key k (map f xs) = map f (sort_key (\<lambda>x. k (f x)) xs)"
  by (induction xs) (auto simp: insort_key_map)

lemma getFilteredReadingsH_effect:
  "getFilteredReadingsH st a h = (r, h') \<Longrightarrow>
     objects h' = objects h \<and> (\<forall>b. b < nextAddr h \<longrightarrow> arrays h' b = arrays h b)
     \<and> nextAddr h \<le> r \<and> r < nextAddr h'
     \<and> contents h' r = getFilteredReadings st (contents h a)"
  by (auto simp: getFilteredReadingsH_def getFilteredReadings_def spreadArray_def newArray_def
      filterArray_def sortArray_def contents_def sort_key_map filter_map comp_def
      split: option.splits if_splits)

text \<open>
  Claim C9: for every view state and every allocated input array, the call leaves that
  array as it was (same references, same order), changes no other array that existed
  before, and changes no reading object. The result is an array allocated by the call,
  and it holds what the function on values computes from the input's readings.
\<close>

theorem getFilteredReadings_leaves_input_unchanged:
  assumes "a < nextAddr h"
  shows "case getFilteredReadingsH st a h of (result, h') \<Rightarrow>
           arrays h' a = arrays h a \<and> contents h' a = contents h a
         \<and> objects h' = objects h
         \<and> (\<forall>b<nextAddr h. arrays h' b = arrays h b)
         \<and> result \<noteq> a
         \<and> contents h' result = getFilteredReadings st (contents h a)"
proof -
  obtain result h' where eq: "getFilteredReadingsH st a h = (result, h')"
    by (cases "getFilteredReadingsH st a h")
  from getFilteredReadingsH_effect [OF eq] assms show ?thesis
    unfolding eq by (auto simp: contents_def)
qed

theorem getFilteredReadings_leaves_input_unchanged_witness:
  "(0::nat) < nextAddr
     \<lparr>objects = (\<lambda>ref. if ref = 0 then \<lparr>device_id = ''B'', location = ''attic'', timestamp = 3300000, consumption_kwh = 1,
          status = ''on'', anomaly_detected = False\<rparr> else \<lparr>device_id = ''A'', location = ''hall'', timestamp = 3300000, consumption_kwh = 6,
          status = ''on'', anomaly_detected = True\<rparr>),
      arrays = (\<lambda>a. if a = 0 then [0, 1] else []), nextAddr = 1\<rparr>
   \<and> (case getFilteredReadingsH \<lparr>cardView = ''consumption'', consumptionFilter = None, timeFrame = 1\<rparr> 0
     \<lparr>objects = (\<lambda>ref. if ref = 0 then \<lparr>device_id = ''B'', location = ''attic'', timestamp = 3300000, consumption_kwh = 1,
          status = ''on'', anomaly_detected = False\<rparr> else \<lparr>device_id = ''A'', location = ''hall'', timestamp = 3300000, consumption_kwh = 6,
          status = ''on'', anomaly_detected = True\<rparr>),
      arrays = (\<lambda>a. if a = 0 then [0, 1] else []), nextAddr = 1\<rparr> of (result, h') \<Rightarrow>
       arrays h' 0 = arrays
     \<lparr>objects = (\<lambda>ref. if ref = 0 then \<lparr>device_id = ''B'', location = ''attic'', timestamp = 3300000, consumption_kwh = 1,
          status = ''on'', anomaly_detected = False\<rparr> else \<lparr>device_id = ''A'', location = ''hall'', timestamp = 3300000, consumption_kwh = 6,
          status = ''on'', anomaly_detected = True\<rparr>),
      arrays = (\<lambda>a. if a = 0 then [0, 1] else []), nextAddr = 1\<rparr> 0
       \<and> result \<noteq> 0 \<and> arrays h' result = [1, 0])"
proof -
  have h: "(0::nat) < nextAddr
     \<lparr>objects = (\<lambda>ref. if ref = 0 then \<lparr>device_id = ''B'', location = ''attic'', timestamp = 3300000, consumption_kwh = 1,
          status = ''on'', anomaly_detected = False\<rparr> else \<lparr>device_id = ''A'', location = ''hall'', timestamp = 3300000, consumption_kwh = 6,
          status = ''on'', anomaly_detected = True\<rparr>),
      arrays = (\<lambda>a. if a = 0 then [0, 1] else []), nextAddr = 1\<rparr>"
    by simp
  from getFilteredReadings_leaves_input_unchanged
    [OF h, of "\<lparr>cardView = ''consumption'', consumptionFilter = None, timeFrame = 1\<rparr>"] h
  show ?thesis
    by (auto simp: getFilteredReadingsH_def spreadArray_def newArray_def sortArray_def
        split: prod.splits)
qed

section \<open>Exceptions\<close>

lemma forEachNewerJS_present:
  "forEachNewerJS keyOf start (map Some rs) acc = Inr (forEachNewer keyOf start rs acc)"
  by (induction rs arbitrary: acc) simp_all

lemma forEachNewerJS_null:
  "None \<in> set items \<Longrightarrow> forEachNewerJS keyOf start items acc = Inl TypeError"
  by (induction keyOf start items acc rule: forEachNewerJS.induct) auto

lemma forEachNewerDeviceJS_present:
  "forEachNewerDeviceJS start (map Some rs) acc = Inr (forEachNewerDevice start rs acc)"
  by (induction rs arbitrary: acc) simp_all

lemma forEachNewerDeviceJS_null:
  "None \<in> set items \<Longrightarrow> forEachNewerDeviceJS start items acc = Inl TypeError"
  by (induction start items acc rule: forEachNewerDeviceJS.induct) auto

lemma filterJS_present: "filterJS p (map Some rs) = Inr (map Some (filter p rs))"
  by (induction rs) simp_all

lemma filterJS_null: "None \<in> set items \<Longrightarrow> filterJS p items = Inl TypeError"
  by (induction p items rule: filterJS.induct) (auto split: sum.splits)

lemma allPresent_present: "allPresent (map Some rs) = Inr rs"
  by (induction rs) simp_all

lemma sort_key_short: "length rs \<le> 1 \<Longrightarrow> sort_key key rs = rs"
  by (cases rs) (auto simp: length_Suc_conv)

lemma sortJS_present: "sortJS key (map Some rs) = Inr (map Some (sort_key key rs))"
  by (simp add: sortJS_def allPresent_present sort_key_short)

text \<open>The error is live: a missing list or a \<^verbatim>\<open>null\<close> element raises.\<close>

lemma null_raises:
  "aggregateConsumptionByTimeJS e Null W = Inl TypeError"
  "aggregateConsumptionByDeviceJS e Null W = Inl TypeError"
  "getFilteredReadingsJS st Null = Inl TypeError"
  "None \<in> set items \<Longrightarrow> aggregateConsumptionByTimeJS e (Val items) W = Inl TypeError"
  "None \<in> set items \<Longrightarrow> aggregateConsumptionByDeviceJS e (Val items) W = Inl TypeError"
  "None \<in> set items \<Longrightarrow> cardView st = ''anomalies'' \<Longrightarrow>
     getFilteredReadingsJS st (Val items) = Inl TypeError"
  by (simp_all add: aggregateConsumptionByTimeJS_def aggregateConsumptionByDeviceJS_def
      getFilteredReadingsJS_def forEachNewerJS_null forEachNewerDeviceJS_null filterJS_null)

text \<open>
  Claim C7: on a reading list of the documented shape (a list, no element \<^verbatim>\<open>null\<close>,
  every element a reading with a number as consumption and a timestamp that parses), for
  every clock, window and view state, the two aggregation functions and the filter function
  raise no error: each returns, and what it returns is the value of the function on
  readings. The suggestion rule has no operation that can raise and returns one of its
  three texts for every number.
\<close>

theorem functions_raise_nothing_on_valid_shape:
  "aggregateConsumptionByTimeJS e (Val (map Some rs)) W = Inr (aggregateConsumptionByTime e rs W)
   \<and> aggregateConsumptionByDeviceJS e (Val (map Some rs)) W
       = Inr (aggregateConsumptionByDevice e rs W)
   \<and> getFilteredReadingsJS st (Val (map Some rs)) = Inr (map Some (getFilteredReadings st rs))
   \<and> generateSmartSuggestion x
       \<in> {advisory HighUsage, advisory ModerateUsage, advisory LowUsage}"
proof (intro conjI)
  show "aggregateConsumptionByTimeJS e (Val (map Some rs)) W
      = Inr (aggregateConsumptionByTime e rs W)"
    by (simp add: aggregateConsumptionByTimeJS_def aggregateConsumptionByTime_def
        forEachNewerJS_present Let_def)
  show "aggregateConsumptionByDeviceJS e (Val (map Some rs)) W
      = Inr (aggregateConsumptionByDevice e rs W)"
    by (simp add: aggregateConsumptionByDeviceJS_def aggregateConsumptionByDevice_def
        forEachNewerDeviceJS_present)
  show "getFilteredReadingsJS st (Val (map Some rs)) = Inr (map Some (getFilteredReadings st rs))"
    by (simp add: getFilteredReadingsJS_def getFilteredReadings_def filterJS_present
        sortJS_present Let_def split: option.splits)
  show "generateSmartSuggestion x
       \<in> {advisory HighUsage, advisory ModerateUsage, advisory LowUsage}"
    by (simp add: generateSmartSuggestion_def)
qed

section \<open>The component on partial payloads\<close>

lemma orDefault_idem: "orDefault d (orDefault d s) = orDefault d s"
  by (cases s) simp_all

lemma deref_orDefault_Inr: "s \<noteq> Null \<Longrightarrow> \<exists>v. deref (orDefault d s) = Inr v"
  by (cases s) simp_all

text \<open>
  Claim C8, as stated, fails for a malformed key: with \<open>recentReadings\<close> holding
  \<^verbatim>\<open>null\<close> the component raises a TypeError, while with the empty list in its place
  it renders.
\<close>

theorem null_key_is_not_defaulted:
  "Dashboard \<lparr>now = 3630000, tzOffset = 0, tzChanges = []\<rparr>
     ''1970-01-01'' ''1969-12-31'' initialState
     \<lparr>recentReadings = Null, dailySummaries = Val [], anomalies = Val [],
      consumptionByDevice = Val []\<rparr> = Inl TypeError
   \<and> Dashboard \<lparr>now = 3630000, tzOffset = 0, tzChanges = []\<rparr>
     ''1970-01-01'' ''1969-12-31'' initialState
     \<lparr>recentReadings = Val [], dailySummaries = Val [], anomalies = Val [],
      consumptionByDevice = Val []\<rparr>
     = Inr (render \<lparr>now = 3630000, tzOffset = 0, tzChanges = []\<rparr>
         ''1970-01-01'' ''1969-12-31'' initialState
         [] [] [] [])"
  by (simp add: Dashboard_def)

text \<open>
  Claim C8, amended: for every payload, the component behaves exactly as on the payload in
  which each missing key holds the empty collection, and it does not fail when every key is
  missing or holds a collection of the documented shape; in particular the payload with all
  four keys missing gives what the all-empty payload gives.
\<close>

theorem missing_keys_default_to_empty:
  "Dashboard e today yesterday st p = Dashboard e today yesterday st (withEmptyDefaults p)
   \<and> (recentReadings p \<noteq> Null \<and> dailySummaries p \<noteq> Null \<and> anomalies p \<noteq> Null
        \<and> consumptionByDevice p \<noteq> Null \<longrightarrow>
        (\<exists>d. Dashboard e today yesterday st p = Inr d))
   \<and> Dashboard e today yesterday st
        \<lparr>recentReadings = Undefined, dailySummaries = Undefined, anomalies = Undefined,
         consumptionByDevice = Undefined\<rparr>
       = Dashboard e today yesterday st
        \<lparr>recentReadings = Val [], dailySummaries = Val [], anomalies = Val [],
         consumptionByDevice = Val []\<rparr>"
proof (intro conjI impI)
  show "Dashboard e today yesterday st p = Dashboard e today yesterday st (withEmptyDefaults p)"
    by (simp add: Dashboard_def withEmptyDefaults_def orDefault_idem)
  show "\<exists>d. Dashboard e today yesterday st p = Inr d"
    if "recentReadings p \<noteq> Null \<and> dailySummaries p \<noteq> Null \<and> anomalies p \<noteq> Null
        \<and> consumptionByDevice p \<noteq> Null"
  proof -
    from that obtain rs ds an bd where
      "deref (orDefault [] (recentReadings p)) = Inr rs"
      "deref (orDefault [] (dailySummaries p)) = Inr ds"
      "deref (orDefault [] (anomalies p)) = Inr an"
      "deref (orDefault [] (consumptionByDevice p)) = Inr bd"
      using deref_orDefault_Inr by metis
    then show ?thesis by (simp add: Dashboard_def)
  qed
  show "Dashboard e today yesterday st
        \<lparr>recentReadings = Undefined, dailySummaries = Undefined, anomalies = Undefined,
         consumptionByDevice = Undefined\<rparr>
       = Dashboard e today yesterday st
        \<lparr>recentReadings = Val [], dailySummaries = Val [], anomalies = Val [],
         consumptionByDevice = Val []\<rparr>"
    by (simp add: Dashboard_def)
qed

theorem missing_keys_default_to_empty_witness:
  "(recentReadings 
       \<lparr>recentReadings = Undefined, dailySummaries = Undefined, anomalies = Val [],
        consumptionByDevice = Undefined\<rparr> \<noteq> Null \<and> dailySummaries 
       \<lparr>recentReadings = Undefined, dailySummaries = Undefined, anomalies = Val [],
        consumptionByDevice = Undefined\<rparr> \<noteq> Null \<and> anomalies 
       \<lparr>recentReadings = Undefined, dailySummaries = Undefined, anomalies = Val [],
        consumptionByDevice = Undefined\<rparr> \<noteq> Null
      \<and> consumptionByDevice 
       \<lparr>recentReadings = Undefined, dailySummaries = Undefined, anomalies = Val [],
        consumptionByDevice = Undefined\<rparr> \<noteq> Null)
   \<and> (\<exists>d. Dashboard \<lparr>now = 3630000, tzOffset = 0, tzChanges = []\<rparr>
         ''1970-01-01'' ''1969-12-31''
         initialState 
       \<lparr>recentReadings = Undefined, dailySummaries = Undefined, anomalies = Val [],
        consumptionByDevice = Undefined\<rparr> = Inr d)"
proof -
  have h: "recentReadings 
       \<lparr>recentReadings = Undefined, dailySummaries = Undefined, anomalies = Val [],
        consumptionByDevice = Undefined\<rparr> \<noteq> Null \<and> dailySummaries 
       \<lparr>recentReadings = Undefined, dailySummaries = Undefined, anomalies = Val [],
        consumptionByDevice = Undefined\<rparr> \<noteq> Null \<and> anomalies 
       \<lparr>recentReadings = Undefined, dailySummaries = Undefined, anomalies = Val [],
        consumptionByDevice = Undefined\<rparr> \<noteq> Null
      \<and> consumptionByDevice 
       \<lparr>recentReadings = Undefined, dailySummaries = Undefined, anomalies = Val [],
        consumptionByDevice = Undefined\<rparr> \<noteq> Null"
    by simp
  from missing_keys_default_to_empty
    [of "\<lparr>now = 3630000, tzOffset = 0, tzChanges = []\<rparr>"
        "''1970-01-01''" "''1969-12-31''" initialState
        "
       \<lparr>recentReadings = Undefined, dailySummaries = Undefined, anomalies = Val [],
        consumptionByDevice = Undefined\<rparr>"] h
  show ?thesis by blast
qed

end
